theory Spec2Isabelle
  imports Main "HOL-Library.Word"
begin

section \<open>The syncer of the block synchronisation engine\<close>

text \<open>
  A shallow embedding of the sequential core of package \<open>syncer\<close>: the reorg state
  machine (\<open>checkRemove\<close>, \<open>attemptOrphan\<close>, \<open>processBlock\<close>) and the range driver
  (\<open>setStart\<close>, \<open>nextSyncableRange\<close>, the halt decision of \<open>Sync\<close>).

  Go's \<open>int64\<close> is a 64-bit word: \<open>+\<close> wraps, comparisons are the signed ones
  (\<open><s\<close>, \<open>\<le>s\<close>). A Go pointer that the code tests or may find nil is an \<open>option\<close>;
  a nil dereference is the result \<open>NilPointerPanic\<close>. The calls made on the Handler are
  recorded in a trace, in order.
\<close>

type_synonym int64 = "64 word"

subsection \<open>Data\<close>

text \<open>
  Modelled from the spec: the declarations of \<open>types.BlockIdentifier\<close> and \<open>types.Block\<close>
  (section 3 of the specification: an identifier is an index and a hash; the syncer reads
  only the identifier and the parent identifier of a block, the rest is payload handed to
  the Handler untouched).
\<close>

record BlockIdentifier =
  Index :: int64
  Hash :: string

record Block =
  BlockIdentifier :: BlockIdentifier
  ParentBlockIdentifier :: BlockIdentifier

text \<open>
  Modelled from the spec: the two fields of \<open>types.NetworkStatusResponse\<close> that the syncer
  reads (the current tip and the genesis identifier, section 4.7).
\<close>

record NetworkStatusResponse =
  CurrentBlockIdentifier :: BlockIdentifier
  GenesisBlockIdentifier :: BlockIdentifier

text \<open>\<open>blockResult\<close>, as the source declares it; \<open>block\<close> is a pointer that may be nil.\<close>

record blockResult =
  index :: int64
  block :: "Block option"
  orphanHead :: bool

text \<open>
  The sync state of \<open>Syncer\<close>: the three fields under "Used to keep track of sync state"
  and \<open>pastBlocks\<close>. \<open>genesisBlock\<close> is nil until \<open>setStart\<close> has run.
\<close>

record Syncer =
  genesisBlock :: "BlockIdentifier option"
  nextIndex :: int64
  pastBlocks :: "BlockIdentifier list"

definition PastBlockSize :: nat where
  "PastBlockSize = 20"

text \<open>\<open>New\<close> without options: the zero values of Go and an empty \<open>pastBlocks\<close>.\<close>

definition New :: Syncer where
  "New = \<lparr>genesisBlock = None, nextIndex = 0, pastBlocks = []\<rparr>"

subsection \<open>Errors\<close>

text \<open>
  The sentinel errors the syncer returns, an error of a collaborator (\<open>External\<close>), and
  the two shapes of \<open>fmt.Errorf\<close> in the source: \<open>Errorf e s\<close> is
  \<open>fmt.Errorf("%w" + s, e)\<close> with the rest of the format already rendered to \<open>s\<close>, and
  \<open>ErrorfV e1 e2\<close> is \<open>fmt.Errorf("%w: %v", e1, e2)\<close>.
\<close>

datatype 'e error =
    ErrBlockResultNil
  | ErrOutOfOrder
  | ErrCannotRemoveGenesisBlock
  | ErrGetCurrentHeadBlockFailed
  | ErrGetNetworkStatusFailed
  | ErrNextSyncableRangeFailed
  | External 'e
  | Errorf "'e error" string
  | ErrorfV "'e error" "'e error"

text \<open>
  \<open>Error\<close> is the message of an error. The texts of the sentinels and of the external
  errors are not in the source at hand: they are the parameter \<open>txt\<close>.
\<close>

fun Error :: "('e error \<Rightarrow> string) \<Rightarrow> 'e error \<Rightarrow> string" where
  "Error txt (Errorf e s) = Error txt e @ s"
| "Error txt (ErrorfV e1 e2) = Error txt e1 @ '': '' @ Error txt e2"
| "Error txt e = txt e"

text \<open>\<open>errors.Is\<close>: the target is the error itself or is reached through \<open>%w\<close>.\<close>

fun Is :: "'e error \<Rightarrow> 'e error \<Rightarrow> bool" where
  "Is (Errorf e s) t = (Errorf e s = t \<or> Is e t)"
| "Is (ErrorfV e1 e2) t = (ErrorfV e1 e2 = t \<or> Is e1 t)"
| "Is e t = (e = t)"

subsection \<open>Rendering an int64 with \<open>%d\<close>\<close>

function showNat :: "nat \<Rightarrow> string" where
  "showNat n = (if n < 10 then [''0123456789'' ! n]
                else showNat (n div 10) @ [''0123456789'' ! (n mod 10)])"
  by pat_completeness auto
termination
  by (relation "measure id") auto

declare showNat.simps [simp del]

definition showInt64 :: "int64 \<Rightarrow> string" where
  "showInt64 w = (if sint w < 0 then ''-'' @ showNat (nat (- sint w)) else showNat (nat (sint w)))"

subsection \<open>The Handler and the outcome of a call\<close>

text \<open>The Handler is an interface: two callbacks, each returning an error or nil.\<close>

record 'e Handler =
  BlockAdded :: "Block option \<Rightarrow> 'e error option"
  BlockRemoved :: "BlockIdentifier option \<Rightarrow> 'e error option"

datatype HandlerCall =
    CallBlockAdded "Block option"
  | CallBlockRemoved "BlockIdentifier option"

text \<open>
  A Go call either returns its results or panics: on a nil pointer, or on a slice
  expression out of range.
\<close>

datatype 'a exec = Done 'a | NilPointerPanic | SliceBoundsPanic

text \<open>
  What one call of \<open>processBlock\<close> does: what it returns (\<open>Done None\<close> is a nil error),
  the Handler calls it made, and the syncer state it leaves.
\<close>

record 'e Step =
  result :: "'e error option exec"
  calls :: "HandlerCall list"
  after :: Syncer

subsection \<open>The reorg state machine\<close>

text \<open>
  \<open>types.Hash\<close> is not in the source at hand: it is the parameter \<open>types_Hash\<close>, a function
  from an identifier pointer to a hash value.
\<close>

definition attemptOrphan ::
  "(BlockIdentifier option \<Rightarrow> 'h) \<Rightarrow> Syncer \<Rightarrow> BlockIdentifier option
    \<Rightarrow> bool \<times> BlockIdentifier option \<times> 'e error option" where
  "attemptOrphan types_Hash s lastBlock =
     (if types_Hash (genesisBlock s) = types_Hash lastBlock
      then (False, None, Some ErrCannotRemoveGenesisBlock)
      else (True, lastBlock, None))"

definition checkRemove ::
  "(BlockIdentifier option \<Rightarrow> 'h) \<Rightarrow> Syncer \<Rightarrow> blockResult
    \<Rightarrow> (bool \<times> BlockIdentifier option \<times> 'e error option) exec" where
  "checkRemove types_Hash s br =
     (if length (pastBlocks s) = 0 then Done (False, None, None)
      else
        let lastBlock = Some (pastBlocks s ! (length (pastBlocks s) - 1)) in
        if orphanHead br then Done (attemptOrphan types_Hash s lastBlock)
        else
          (case block br of
             None \<Rightarrow> NilPointerPanic
           | Some b \<Rightarrow>
               if Index (BlockIdentifier b) \<noteq> nextIndex s
               then Done (False, None,
                      Some (Errorf ErrOutOfOrder
                        ('': got block '' @ showInt64 (Index (BlockIdentifier b))
                          @ '' instead of '' @ showInt64 (nextIndex s))))
               else if types_Hash (Some (ParentBlockIdentifier b)) \<noteq> types_Hash lastBlock
               then Done (attemptOrphan types_Hash s lastBlock)
               else Done (False, lastBlock, None)))"

text \<open>The tail of \<open>processBlock\<close> after \<open>checkRemove\<close> found nothing to remove.\<close>

definition addBlock :: "'e Handler \<Rightarrow> Syncer \<Rightarrow> Block option \<Rightarrow> 'e Step" where
  "addBlock h s blk =
     (case BlockAdded h blk of
        Some err \<Rightarrow> \<lparr>result = Done (Some err), calls = [CallBlockAdded blk], after = s\<rparr>
      | None \<Rightarrow>
          (case blk of
             None \<Rightarrow> \<lparr>result = NilPointerPanic, calls = [CallBlockAdded blk], after = s\<rparr>
           | Some b \<Rightarrow>
               let appended = pastBlocks s @ [BlockIdentifier b];
                   trimmed = (if length appended > PastBlockSize then drop 1 appended
                              else appended)
               in \<lparr>result = Done None, calls = [CallBlockAdded blk],
                   after = s\<lparr>pastBlocks := trimmed,
                              nextIndex := Index (BlockIdentifier b) + 1\<rparr>\<rparr>))"

text \<open>The branch of \<open>processBlock\<close> under \<open>shouldRemove\<close>.\<close>

definition removeBlock :: "'e Handler \<Rightarrow> Syncer \<Rightarrow> BlockIdentifier option \<Rightarrow> 'e Step" where
  "removeBlock h s lastBlock =
     (case BlockRemoved h lastBlock of
        Some err \<Rightarrow> \<lparr>result = Done (Some err), calls = [CallBlockRemoved lastBlock], after = s\<rparr>
      | None \<Rightarrow>
          if length (pastBlocks s) = 0
          then \<lparr>result = SliceBoundsPanic, calls = [CallBlockRemoved lastBlock], after = s\<rparr>
          else
            let s1 = s\<lparr>pastBlocks := take (length (pastBlocks s) - 1) (pastBlocks s)\<rparr> in
            (case lastBlock of
               None \<Rightarrow> \<lparr>result = NilPointerPanic, calls = [CallBlockRemoved lastBlock],
                         after = s1\<rparr>
             | Some l \<Rightarrow> \<lparr>result = Done None, calls = [CallBlockRemoved lastBlock],
                          after = s1\<lparr>nextIndex := Index l\<rparr>\<rparr>))"

definition processBlock ::
  "(BlockIdentifier option \<Rightarrow> 'h) \<Rightarrow> 'e Handler \<Rightarrow> Syncer \<Rightarrow> blockResult option \<Rightarrow> 'e Step" where
  "processBlock types_Hash h s br_ptr =
     (case br_ptr of
        None \<Rightarrow> \<lparr>result = Done (Some ErrBlockResultNil), calls = [], after = s\<rparr>
      | Some br \<Rightarrow>
          if block br = None \<and> \<not> orphanHead br
          then \<lparr>result = Done None, calls = [], after = s\<lparr>nextIndex := nextIndex s + 1\<rparr>\<rparr>
          else
            (case checkRemove types_Hash s br of
               NilPointerPanic \<Rightarrow> \<lparr>result = NilPointerPanic, calls = [], after = s\<rparr>
             | SliceBoundsPanic \<Rightarrow> \<lparr>result = SliceBoundsPanic, calls = [], after = s\<rparr>
             | Done (shouldRemove, lastBlock, err) \<Rightarrow>
                 (case err of
                    Some e \<Rightarrow> \<lparr>result = Done (Some e), calls = [], after = s\<rparr>
                  | None \<Rightarrow>
                      if shouldRemove then removeBlock h s lastBlock
                      else addBlock h s (block br))))"

subsection \<open>The range driver\<close>

text \<open>
  \<open>Helper.NetworkStatus\<close> answers with a response or an error: the parameter \<open>ns\<close>
  (\<open>Inl\<close> the error).
\<close>

definition setStart ::
  "('e error + NetworkStatusResponse) \<Rightarrow> Syncer \<Rightarrow> int64 \<Rightarrow> 'e error option \<times> Syncer" where
  "setStart ns s i =
     (case ns of
        Inl err \<Rightarrow> (Some err, s)
      | Inr networkStatus \<Rightarrow>
          let s1 = s\<lparr>genesisBlock := Some (GenesisBlockIdentifier networkStatus)\<rparr> in
          if i \<noteq> - 1 then (None, s1\<lparr>nextIndex := i\<rparr>)
          else (None, s1\<lparr>nextIndex := Index (GenesisBlockIdentifier networkStatus)\<rparr>))"

definition nextSyncableRange ::
  "('e error + NetworkStatusResponse) \<Rightarrow> Syncer \<Rightarrow> int64 \<Rightarrow> int64 \<times> bool \<times> 'e error option" where
  "nextSyncableRange ns s endIndex =
     (if nextIndex s = - 1 then (- 1, False, Some ErrGetCurrentHeadBlockFailed)
      else
        (case ns of
           Inl err \<Rightarrow> (- 1, False, Some (ErrorfV ErrGetNetworkStatusFailed err))
         | Inr networkStatus \<Rightarrow>
             let endIndex1 =
                   (if endIndex = - 1 \<or> Index (CurrentBlockIdentifier networkStatus) <s endIndex
                    then Index (CurrentBlockIdentifier networkStatus) else endIndex)
             in if endIndex1 <s nextIndex s then (- 1, True, None)
                else (endIndex1, False, None)))"

text \<open>
  One turn of the loop of \<open>Sync\<close>, up to the call of \<open>syncRange\<close>: it returns an error,
  leaves the loop (the range is synced), sleeps and repeats, or syncs up to a range end.
\<close>

datatype 'e SyncTurn =
    SyncFailed "'e error"
  | SyncFinished
  | SyncSleep
  | SyncRange int64

definition SyncLoopTurn ::
  "('e error + NetworkStatusResponse) \<Rightarrow> Syncer \<Rightarrow> int64 \<Rightarrow> 'e SyncTurn" where
  "SyncLoopTurn ns s endIndex =
     (case nextSyncableRange ns s endIndex of
        (rangeEnd, halt, err) \<Rightarrow>
          (case err of
             Some e \<Rightarrow> SyncFailed (ErrorfV ErrNextSyncableRangeFailed e)
           | None \<Rightarrow>
               if halt then
                 (if endIndex <s nextIndex s \<and> endIndex \<noteq> - 1 then SyncFinished
                  else SyncSleep)
               else SyncRange rangeEnd))"

subsection \<open>The data of the package's tests\<close>

text \<open>
  \<open>blockSequence\<close> and \<open>orphanGenesis\<close> of the test file (the transactions are payload
  and left out), a Handler mock that accepts every call, one that fails every call, and
  the network status of \<open>TestSync_NoReorg\<close>.
\<close>

definition blockSequence :: "Block list" where
  "blockSequence =
    [\<lparr>BlockIdentifier = \<lparr>Index = 0, Hash = ''0''\<rparr>,
      ParentBlockIdentifier = \<lparr>Index = 0, Hash = ''0''\<rparr>\<rparr>,
     \<lparr>BlockIdentifier = \<lparr>Index = 1, Hash = ''1''\<rparr>,
      ParentBlockIdentifier = \<lparr>Index = 0, Hash = ''0''\<rparr>\<rparr>,
     \<lparr>BlockIdentifier = \<lparr>Index = 2, Hash = ''2''\<rparr>,
      ParentBlockIdentifier = \<lparr>Index = 1, Hash = ''1a''\<rparr>\<rparr>,
     \<lparr>BlockIdentifier = \<lparr>Index = 1, Hash = ''1a''\<rparr>,
      ParentBlockIdentifier = \<lparr>Index = 0, Hash = ''0''\<rparr>\<rparr>,
     \<lparr>BlockIdentifier = \<lparr>Index = 3, Hash = ''3''\<rparr>,
      ParentBlockIdentifier = \<lparr>Index = 2, Hash = ''2''\<rparr>\<rparr>,
     \<lparr>BlockIdentifier = \<lparr>Index = 5, Hash = ''5''\<rparr>,
      ParentBlockIdentifier = \<lparr>Index = 4, Hash = ''4''\<rparr>\<rparr>]"

definition orphanGenesis :: Block where
  "orphanGenesis = \<lparr>BlockIdentifier = \<lparr>Index = 1, Hash = ''1''\<rparr>,
                     ParentBlockIdentifier = \<lparr>Index = 0, Hash = ''0a''\<rparr>\<rparr>"

definition acceptingHandler :: "string Handler" where
  "acceptingHandler = \<lparr>BlockAdded = (\<lambda>_. None), BlockRemoved = (\<lambda>_. None)\<rparr>"

definition failingHandler :: "string Handler" where
  "failingHandler = \<lparr>BlockAdded = (\<lambda>_. Some (External ''handler failed'')),
                      BlockRemoved = (\<lambda>_. Some (External ''handler failed''))\<rparr>"

definition networkStatus200 :: NetworkStatusResponse where
  "networkStatus200 = \<lparr>CurrentBlockIdentifier = \<lparr>Index = 200, Hash = ''block 200''\<rparr>,
                        GenesisBlockIdentifier = \<lparr>Index = 0, Hash = ''block 0''\<rparr>\<rparr>"

text \<open>The states the syncer of \<open>TestProcessBlock\<close> goes through.\<close>

definition syncedGenesis :: Syncer where
  "syncedGenesis = \<lparr>genesisBlock = Some (BlockIdentifier (blockSequence ! 0)), nextIndex = 1,
      pastBlocks = [BlockIdentifier (blockSequence ! 0)]\<rparr>"

definition syncedTwo :: Syncer where
  "syncedTwo = \<lparr>genesisBlock = Some (BlockIdentifier (blockSequence ! 0)), nextIndex = 2,
      pastBlocks = [BlockIdentifier (blockSequence ! 0), BlockIdentifier (blockSequence ! 1)]\<rparr>"

definition syncedThree :: Syncer where
  "syncedThree = \<lparr>genesisBlock = Some (BlockIdentifier (blockSequence ! 0)), nextIndex = 3,
      pastBlocks = [BlockIdentifier (blockSequence ! 0), BlockIdentifier (blockSequence ! 3),
                    BlockIdentifier (blockSequence ! 2)]\<rparr>"

text \<open>A syncer whose window holds \<open>PastBlockSize\<close> identifiers, and the block after them.\<close>

definition fullWindow :: Syncer where
  "fullWindow = \<lparr>genesisBlock = Some \<lparr>Index = 0, Hash = ''0''\<rparr>, nextIndex = 20,
      pastBlocks = map (\<lambda>n. \<lparr>Index = of_nat n, Hash = showNat n\<rparr>) [0..<20]\<rparr>"

definition block20 :: Block where
  "block20 = \<lparr>BlockIdentifier = \<lparr>Index = 20, Hash = ''20''\<rparr>,
               ParentBlockIdentifier = \<lparr>Index = 19, Hash = ''19''\<rparr>\<rparr>"

section \<open>Properties\<close>

lemmas step_defs = processBlock_def checkRemove_def attemptOrphan_def addBlock_def removeBlock_def

lemma showInt64_small: "showInt64 5 = ''5''" "showInt64 3 = ''3''"
  by (simp_all add: showInt64_def showNat.simps)

text \<open>What \<open>checkRemove\<close> answers when an unwind is due and the tail is not the genesis.\<close>

lemma checkRemove_unwind:
  assumes "pastBlocks s \<noteq> []"
    and "types_Hash (genesisBlock s) \<noteq> types_Hash (Some (last (pastBlocks s)))"
    and "orphanHead br \<or> (\<exists>b. block br = Some b \<and> Index (BlockIdentifier b) = nextIndex s
           \<and> types_Hash (Some (ParentBlockIdentifier b)) \<noteq> types_Hash (Some (last (pastBlocks s))))"
  shows "checkRemove types_Hash s br = Done (True, Some (last (pastBlocks s)), None)"
  using assms by (auto simp: checkRemove_def attemptOrphan_def last_conv_nth Let_def)

text \<open>What \<open>checkRemove\<close> answers for an in-order block that connects, or on an empty window.\<close>

lemma checkRemove_connects:
  assumes "block br = Some b" and "\<not> orphanHead br"
    and "Index (BlockIdentifier b) = nextIndex s"
    and "pastBlocks s = [] \<or>
         types_Hash (Some (ParentBlockIdentifier b)) = types_Hash (Some (last (pastBlocks s)))"
  shows "checkRemove types_Hash s br
      = Done (False, if pastBlocks s = [] then None else Some (last (pastBlocks s)), None)"
  using assms by (auto simp: checkRemove_def last_conv_nth Let_def)

subsection \<open>Unwinding\<close>

text \<open>
  C1 (as amended). When an unwind is due (the result is an orphan head, or it carries an
  in-order block whose parent does not hash-equal the tail of \<open>pastBlocks\<close>), the window
  is not empty and its tail does not hash-equal the genesis identifier, \<open>processBlock\<close>
  calls \<open>Handler.BlockRemoved\<close> exactly once, with the tail, and never
  \<open>Handler.BlockAdded\<close>. If the callback returns no error, the tail entry is removed and
  \<open>nextIndex\<close> becomes the index of the removed tail; if it returns an error,
  \<open>processBlock\<close> returns that error and the state stays as it was.
\<close>

theorem processBlock_unwind:
  assumes "pastBlocks s \<noteq> []"
    and "types_Hash (genesisBlock s) \<noteq> types_Hash (Some (last (pastBlocks s)))"
    and "orphanHead br \<or> (\<exists>b. block br = Some b \<and> Index (BlockIdentifier b) = nextIndex s
           \<and> types_Hash (Some (ParentBlockIdentifier b)) \<noteq> types_Hash (Some (last (pastBlocks s))))"
  shows "processBlock types_Hash h s (Some br) =
     (case BlockRemoved h (Some (last (pastBlocks s))) of
        None \<Rightarrow> \<lparr>result = Done None,
                  calls = [CallBlockRemoved (Some (last (pastBlocks s)))],
                  after = s\<lparr>pastBlocks := butlast (pastBlocks s),
                             nextIndex := Index (last (pastBlocks s))\<rparr>\<rparr>
      | Some e \<Rightarrow> \<lparr>result = Done (Some e),
                    calls = [CallBlockRemoved (Some (last (pastBlocks s)))],
                    after = s\<rparr>)"
proof -
  from assms(3) have fresh: "\<not> (block br = None \<and> \<not> orphanHead br)" by auto
  have "processBlock types_Hash h s (Some br) = removeBlock h s (Some (last (pastBlocks s)))"
    using fresh by (auto simp: processBlock_def checkRemove_unwind [OF assms])
  then show ?thesis
    using assms(1) by (simp add: removeBlock_def butlast_conv_take Let_def split: option.splits)
qed

text \<open>
  The test "Orphan block": with blocks 0 and 1 accepted, block 2 arrives with parent
  \<open>1a\<close>; block 1 is removed and index 1 is next.
\<close>

theorem processBlock_unwind_witness:
  "processBlock (\<lambda>x. x) acceptingHandler syncedTwo
     (Some \<lparr>index = 2, block = Some (blockSequence ! 2), orphanHead = False\<rparr>)
   = \<lparr>result = Done None,
      calls = [CallBlockRemoved (Some (BlockIdentifier (blockSequence ! 1)))],
      after = \<lparr>genesisBlock = Some (BlockIdentifier (blockSequence ! 0)), nextIndex = 1,
               pastBlocks = [BlockIdentifier (blockSequence ! 0)]\<rparr>\<rparr>"
proof -
  let ?br = "\<lparr>index = 2, block = Some (blockSequence ! 2), orphanHead = False\<rparr>"
  have a: "pastBlocks syncedTwo \<noteq> []"
    by (simp add: syncedTwo_def)
  have b: "(\<lambda>x. x) (genesisBlock syncedTwo) \<noteq> (\<lambda>x. x) (Some (last (pastBlocks syncedTwo)))"
    by (simp add: syncedTwo_def blockSequence_def)
  have c: "orphanHead ?br \<or>
     (\<exists>b. block ?br = Some b \<and> Index (BlockIdentifier b) = nextIndex syncedTwo
           \<and> (\<lambda>x. x) (Some (ParentBlockIdentifier b))
               \<noteq> (\<lambda>x. x) (Some (last (pastBlocks syncedTwo))))"
    by (simp add: syncedTwo_def blockSequence_def)
  show ?thesis
    using processBlock_unwind [OF a b c, of acceptingHandler]
    by (simp add: syncedTwo_def blockSequence_def acceptingHandler_def)
qed

text \<open>
  The claim as first stated promised the removal for every such call. With a Handler
  whose \<open>BlockRemoved\<close> fails, an orphan head at index 2 leaves both accepted blocks in
  the window and \<open>nextIndex\<close> at 2, not at the tail's index 1.
\<close>

theorem processBlock_unwind_handler_error:
  "pastBlocks syncedTwo \<noteq> []
   \<and> genesisBlock syncedTwo \<noteq> Some (last (pastBlocks syncedTwo))
   \<and> orphanHead \<lparr>index = 2, block = None, orphanHead = True\<rparr>
   \<and> pastBlocks (after (processBlock (\<lambda>x. x) failingHandler syncedTwo
         (Some \<lparr>index = 2, block = None, orphanHead = True\<rparr>))) = pastBlocks syncedTwo
   \<and> pastBlocks syncedTwo \<noteq> butlast (pastBlocks syncedTwo)
   \<and> nextIndex (after (processBlock (\<lambda>x. x) failingHandler syncedTwo
         (Some \<lparr>index = 2, block = None, orphanHead = True\<rparr>))) = 2
   \<and> Index (last (pastBlocks syncedTwo)) = 1"
  by (simp add: step_defs syncedTwo_def blockSequence_def failingHandler_def)

subsection \<open>Appending\<close>

text \<open>
  C2 (as amended). For a result that carries a block (not an orphan head) whose index is
  \<open>nextIndex\<close>, on an empty window or with a parent that hash-equals the tail of
  \<open>pastBlocks\<close>, \<open>processBlock\<close> calls \<open>Handler.BlockAdded\<close> exactly once, with that
  block, and makes no other Handler call. If the callback returns no error, the block's
  identifier is appended at the tail of \<open>pastBlocks\<close> (the head is dropped when the
  length would exceed \<open>PastBlockSize\<close>) and \<open>nextIndex\<close> becomes the block's index plus
  one; if it returns an error, \<open>processBlock\<close> returns that error and the state stays as
  it was.
\<close>

theorem processBlock_append:
  assumes "block br = Some b" and "\<not> orphanHead br"
    and "Index (BlockIdentifier b) = nextIndex s"
    and "pastBlocks s = [] \<or>
         types_Hash (Some (ParentBlockIdentifier b)) = types_Hash (Some (last (pastBlocks s)))"
  shows "processBlock types_Hash h s (Some br) =
     (case BlockAdded h (Some b) of
        None \<Rightarrow> \<lparr>result = Done None,
                  calls = [CallBlockAdded (Some b)],
                  after = s\<lparr>pastBlocks :=
                               (if PastBlockSize < length (pastBlocks s @ [BlockIdentifier b])
                                then drop 1 (pastBlocks s @ [BlockIdentifier b])
                                else pastBlocks s @ [BlockIdentifier b]),
                             nextIndex := Index (BlockIdentifier b) + 1\<rparr>\<rparr>
      | Some e \<Rightarrow> \<lparr>result = Done (Some e),
                    calls = [CallBlockAdded (Some b)],
                    after = s\<rparr>)"
proof -
  have "processBlock types_Hash h s (Some br) = addBlock h s (Some b)"
    using assms(1) by (simp add: processBlock_def checkRemove_connects [OF assms])
  then show ?thesis
    by (simp add: addBlock_def Let_def split: option.splits)
qed

text \<open>The test "Block exists, no reorg": block 1 is accepted after the genesis block.\<close>

theorem processBlock_append_witness:
  "processBlock (\<lambda>x. x) acceptingHandler syncedGenesis
     (Some \<lparr>index = 1, block = Some (blockSequence ! 1), orphanHead = False\<rparr>)
   = \<lparr>result = Done None,
      calls = [CallBlockAdded (Some (blockSequence ! 1))],
      after = syncedTwo\<rparr>"
proof -
  let ?br = "\<lparr>index = 1, block = Some (blockSequence ! 1), orphanHead = False\<rparr>"
  have a: "block ?br = Some (blockSequence ! 1)" by simp
  have b: "\<not> orphanHead ?br" by simp
  have c: "Index (BlockIdentifier (blockSequence ! 1)) = nextIndex syncedGenesis"
    by (simp add: syncedGenesis_def blockSequence_def)
  have d: "pastBlocks syncedGenesis = [] \<or>
      (\<lambda>x. x) (Some (ParentBlockIdentifier (blockSequence ! 1)))
       = (\<lambda>x. x) (Some (last (pastBlocks syncedGenesis)))"
    by (simp add: syncedGenesis_def blockSequence_def)
  show ?thesis
    using processBlock_append [OF a b c d, of acceptingHandler]
    by (simp add: syncedGenesis_def syncedTwo_def blockSequence_def acceptingHandler_def
        PastBlockSize_def)
qed

text \<open>
  The claim as first stated promised the append for every such call. With a Handler whose
  \<open>BlockAdded\<close> fails, block 1 is offered to the Handler once and the window still holds
  the genesis identifier only; \<open>nextIndex\<close> stays 1, not 2.
\<close>

theorem processBlock_append_handler_error:
  "block \<lparr>index = 1, block = Some (blockSequence ! 1), orphanHead = False\<rparr> = Some (blockSequence ! 1)
   \<and> Index (BlockIdentifier (blockSequence ! 1)) = nextIndex syncedGenesis
   \<and> Some (ParentBlockIdentifier (blockSequence ! 1)) = Some (last (pastBlocks syncedGenesis))
   \<and> processBlock (\<lambda>x. x) failingHandler syncedGenesis
       (Some \<lparr>index = 1, block = Some (blockSequence ! 1), orphanHead = False\<rparr>)
     = \<lparr>result = Done (Some (External ''handler failed'')),
        calls = [CallBlockAdded (Some (blockSequence ! 1))],
        after = syncedGenesis\<rparr>
   \<and> pastBlocks syncedGenesis = [BlockIdentifier (blockSequence ! 0)]
   \<and> nextIndex syncedGenesis = 1
   \<and> Index (BlockIdentifier (blockSequence ! 1)) + 1 = 2"
  by (simp add: step_defs syncedGenesis_def blockSequence_def failingHandler_def)

subsection \<open>Blocks out of order\<close>

text \<open>
  The path through a window that is not empty ("Ensure processing correct index"): a
  result that carries a block (not an orphan head) whose index is not \<open>nextIndex\<close> makes
  \<open>processBlock\<close> fail with an error that wraps \<open>ErrOutOfOrder\<close> and whose message is
  the message of \<open>ErrOutOfOrder\<close> followed by ": got block i instead of n", for the
  block's index \<open>i\<close> and \<open>nextIndex\<close> \<open>n\<close> in decimal; no Handler call is made and the
  state stays as it was.
\<close>

lemma processBlock_out_of_order_nonempty:
  assumes "pastBlocks s \<noteq> []" and "block br = Some b" and "\<not> orphanHead br"
    and "Index (BlockIdentifier b) \<noteq> nextIndex s"
  shows "processBlock types_Hash h s (Some br)
       = \<lparr>result = Done (Some (Errorf ErrOutOfOrder
                      ('': got block '' @ showInt64 (Index (BlockIdentifier b))
                        @ '' instead of '' @ showInt64 (nextIndex s)))),
          calls = [], after = s\<rparr>
     \<and> Is (Errorf ErrOutOfOrder
             ('': got block '' @ showInt64 (Index (BlockIdentifier b))
               @ '' instead of '' @ showInt64 (nextIndex s)) :: 'e error) ErrOutOfOrder
     \<and> Error txt (Errorf ErrOutOfOrder
             ('': got block '' @ showInt64 (Index (BlockIdentifier b))
               @ '' instead of '' @ showInt64 (nextIndex s)) :: 'e error)
         = txt ErrOutOfOrder @ '': '' @ ''got block '' @ showInt64 (Index (BlockIdentifier b))
             @ '' instead of '' @ showInt64 (nextIndex s)"
  using assms by (simp add: processBlock_def checkRemove_def Let_def)

text \<open>
  The test "Out of order block": with three blocks accepted and index 3 next, the block
  of index 5 is refused with "got block 5 instead of 3".
\<close>

lemma processBlock_out_of_order_test:
  "processBlock (\<lambda>x. x) acceptingHandler syncedThree
      (Some \<lparr>index = 3, block = Some (blockSequence ! 5), orphanHead = False\<rparr>)
    = \<lparr>result = Done (Some (Errorf ErrOutOfOrder '': got block 5 instead of 3'')),
       calls = [], after = syncedThree\<rparr>
   \<and> Is (Errorf ErrOutOfOrder '': got block 5 instead of 3'' :: string error) ErrOutOfOrder
   \<and> Error (\<lambda>_. ''out of order'') (Errorf ErrOutOfOrder '': got block 5 instead of 3'' :: string error)
       = ''out of order: got block 5 instead of 3''"
proof -
  let ?br = "\<lparr>index = 3, block = Some (blockSequence ! 5), orphanHead = False\<rparr>"
  have a: "pastBlocks syncedThree \<noteq> []" by (simp add: syncedThree_def)
  have b: "block ?br = Some (blockSequence ! 5)" by simp
  have c: "\<not> orphanHead ?br" by simp
  have d: "Index (BlockIdentifier (blockSequence ! 5)) \<noteq> nextIndex syncedThree"
    by (simp add: syncedThree_def blockSequence_def)
  have e: "Index (BlockIdentifier (blockSequence ! 5)) = 5" "nextIndex syncedThree = 3"
    by (simp_all add: syncedThree_def blockSequence_def)
  show ?thesis
    using processBlock_out_of_order_nonempty [OF a b c d, of "\<lambda>x. x" acceptingHandler "\<lambda>_. ''out of order''"]
    by (simp add: e showInt64_small)
qed

text \<open>
  C3. The claim is that every result that carries a block (not an orphan head) whose
  index is not \<open>nextIndex\<close> makes \<open>processBlock\<close> fail with the out-of-order error
  "got block i instead of n". The code does so only through a window that is not empty:
  \<open>checkRemove\<close> returns at once on an empty \<open>pastBlocks\<close>, before it compares the
  indexes. After \<open>setStart\<close> with index 3 on the syncer that \<open>New\<close> makes, the block of
  index 5 is handed to \<open>BlockAdded\<close> and accepted, no error is returned, and index 6 is
  next.
\<close>

theorem processBlock_empty_window_any_index:
  "fst (setStart (Inr networkStatus200 :: string error + NetworkStatusResponse) New 3) = None
   \<and> nextIndex (snd (setStart (Inr networkStatus200 :: string error + NetworkStatusResponse) New 3))
       = 3
   \<and> Index (BlockIdentifier (blockSequence ! 5)) = 5
   \<and> processBlock (\<lambda>x. x) acceptingHandler
        (snd (setStart (Inr networkStatus200 :: string error + NetworkStatusResponse) New 3))
        (Some \<lparr>index = 3, block = Some (blockSequence ! 5), orphanHead = False\<rparr>)
      = \<lparr>result = Done None, calls = [CallBlockAdded (Some (blockSequence ! 5))],
         after = \<lparr>genesisBlock = Some (GenesisBlockIdentifier networkStatus200),
                  nextIndex = 6,
                  pastBlocks = [BlockIdentifier (blockSequence ! 5)]\<rparr>\<rparr>"
  by (simp add: step_defs setStart_def New_def networkStatus200_def blockSequence_def
      acceptingHandler_def PastBlockSize_def)

subsection \<open>The genesis block is never removed\<close>

text \<open>What \<open>checkRemove\<close> answers when an unwind is due and the tail is the genesis.\<close>

lemma checkRemove_genesis:
  assumes "pastBlocks s \<noteq> []"
    and "types_Hash (genesisBlock s) = types_Hash (Some (last (pastBlocks s)))"
    and "orphanHead br \<or> (\<exists>b. block br = Some b \<and> Index (BlockIdentifier b) = nextIndex s
           \<and> types_Hash (Some (ParentBlockIdentifier b)) \<noteq> types_Hash (Some (last (pastBlocks s))))"
  shows "checkRemove types_Hash s br = Done (False, None, Some ErrCannotRemoveGenesisBlock)"
  using assms by (auto simp: checkRemove_def attemptOrphan_def last_conv_nth Let_def)

text \<open>
  C4. When an unwind is due (the result is an orphan head, or it carries an in-order
  block whose parent does not hash-equal the tail of \<open>pastBlocks\<close>) and the tail of
  \<open>pastBlocks\<close> hash-equals the genesis identifier, \<open>processBlock\<close> returns
  \<open>ErrCannotRemoveGenesisBlock\<close>, makes no Handler call and leaves the state as it was.
\<close>

theorem processBlock_cannot_remove_genesis:
  assumes "pastBlocks s \<noteq> []"
    and "types_Hash (genesisBlock s) = types_Hash (Some (last (pastBlocks s)))"
    and "orphanHead br \<or> (\<exists>b. block br = Some b \<and> Index (BlockIdentifier b) = nextIndex s
           \<and> types_Hash (Some (ParentBlockIdentifier b)) \<noteq> types_Hash (Some (last (pastBlocks s))))"
  shows "processBlock types_Hash h s (Some br)
       = \<lparr>result = Done (Some ErrCannotRemoveGenesisBlock), calls = [], after = s\<rparr>"
proof -
  from assms(3) have "\<not> (block br = None \<and> \<not> orphanHead br)" by auto
  then show ?thesis
    by (auto simp: processBlock_def checkRemove_genesis [OF assms])
qed

text \<open>
  The test "Orphan genesis" (block 1 arrives with parent \<open>0a\<close> while only the genesis
  block is in the window) and scenario S3 (an orphan head at index 1). The Handler of the
  witness fails every call: it is never asked.
\<close>

theorem processBlock_cannot_remove_genesis_witness:
  "processBlock (\<lambda>x. x) failingHandler syncedGenesis
      (Some \<lparr>index = 1, block = Some orphanGenesis, orphanHead = False\<rparr>)
    = \<lparr>result = Done (Some ErrCannotRemoveGenesisBlock), calls = [], after = syncedGenesis\<rparr>
   \<and> processBlock (\<lambda>x. x) failingHandler syncedGenesis
      (Some \<lparr>index = 1, block = None, orphanHead = True\<rparr>)
    = \<lparr>result = Done (Some ErrCannotRemoveGenesisBlock), calls = [], after = syncedGenesis\<rparr>"
proof -
  let ?br = "\<lparr>index = 1, block = Some orphanGenesis, orphanHead = False\<rparr>"
  let ?bo = "\<lparr>index = 1, block = None, orphanHead = True\<rparr>"
  have a: "pastBlocks syncedGenesis \<noteq> []"
    by (simp add: syncedGenesis_def)
  have b: "(\<lambda>x. x) (genesisBlock syncedGenesis)
      = (\<lambda>x. x) (Some (last (pastBlocks syncedGenesis)))"
    by (simp add: syncedGenesis_def)
  have c: "orphanHead ?br \<or>
     (\<exists>b. block ?br = Some b \<and> Index (BlockIdentifier b) = nextIndex syncedGenesis
           \<and> (\<lambda>x. x) (Some (ParentBlockIdentifier b))
               \<noteq> (\<lambda>x. x) (Some (last (pastBlocks syncedGenesis))))"
    by (simp add: syncedGenesis_def blockSequence_def orphanGenesis_def)
  have d: "orphanHead ?bo \<or>
     (\<exists>b. block ?bo = Some b \<and> Index (BlockIdentifier b) = nextIndex syncedGenesis
           \<and> (\<lambda>x. x) (Some (ParentBlockIdentifier b))
               \<noteq> (\<lambda>x. x) (Some (last (pastBlocks syncedGenesis))))"
    by simp
  show ?thesis
    using processBlock_cannot_remove_genesis [OF a b c, of failingHandler]
          processBlock_cannot_remove_genesis [OF a b d, of failingHandler]
    by simp
qed

subsection \<open>The window and the next index\<close>

text \<open>
  C5 (as amended). \<open>pastBlocks\<close> is not empty after every call of \<open>processBlock\<close> that
  accepts a block (it returns no error and its one Handler call is \<open>BlockAdded\<close>).
  \<open>setStart\<close> and an omitted block move \<open>nextIndex\<close> and leave \<open>pastBlocks\<close> as it
  was, empty if it was empty.
\<close>

theorem pastBlocks_nonempty_after_append:
  "pastBlocks (snd (setStart ns s i)) = pastBlocks s
   \<and> (block omitted = None \<and> \<not> orphanHead omitted \<longrightarrow>
        pastBlocks (after (processBlock types_Hash h s (Some omitted))) = pastBlocks s)
   \<and> (result (processBlock types_Hash h s (Some br)) = Done None
        \<and> calls (processBlock types_Hash h s (Some br)) = [CallBlockAdded (block br)]
        \<longrightarrow> pastBlocks (after (processBlock types_Hash h s (Some br))) \<noteq> [])"
  by (auto simp: setStart_def Let_def step_defs PastBlockSize_def
      split: sum.splits option.splits if_splits)

text \<open>
  On the syncer that \<open>New\<close> makes: a start at index 5 and an omitted block leave the
  window empty; accepting the genesis block fills it.
\<close>

theorem pastBlocks_nonempty_after_append_witness:
  "pastBlocks (snd (setStart (Inr networkStatus200 :: string error + NetworkStatusResponse) New 5)) = []
   \<and> pastBlocks (after (processBlock (\<lambda>x. x) acceptingHandler New
        (Some \<lparr>index = 0, block = None, orphanHead = False\<rparr>))) = []
   \<and> result (processBlock (\<lambda>x. x) acceptingHandler New
        (Some \<lparr>index = 0, block = Some (blockSequence ! 0), orphanHead = False\<rparr>)) = Done None
   \<and> calls (processBlock (\<lambda>x. x) acceptingHandler New
        (Some \<lparr>index = 0, block = Some (blockSequence ! 0), orphanHead = False\<rparr>))
       = [CallBlockAdded (Some (blockSequence ! 0))]
   \<and> pastBlocks (after (processBlock (\<lambda>x. x) acceptingHandler New
        (Some \<lparr>index = 0, block = Some (blockSequence ! 0), orphanHead = False\<rparr>))) \<noteq> []"
proof -
  let ?om = "\<lparr>index = 0, block = None, orphanHead = False\<rparr>"
  let ?br = "\<lparr>index = 0, block = Some (blockSequence ! 0), orphanHead = False\<rparr>"
  have a: "block ?om = None \<and> \<not> orphanHead ?om" by simp
  have b: "result (processBlock (\<lambda>x. x) acceptingHandler New (Some ?br)) = Done None
        \<and> calls (processBlock (\<lambda>x. x) acceptingHandler New (Some ?br)) = [CallBlockAdded (block ?br)]"
    by (simp add: step_defs New_def acceptingHandler_def Let_def PastBlockSize_def)
  have n: "pastBlocks New = []" by (simp add: New_def)
  show ?thesis
    using a b n pastBlocks_nonempty_after_append
      [of "Inr networkStatus200 :: string error + NetworkStatusResponse" New 5 ?om "\<lambda>x. x"
          acceptingHandler ?br]
    by simp
qed

text \<open>
  The claim as first stated said that \<open>pastBlocks\<close> is not empty once \<open>nextIndex\<close> is
  above the genesis index, and that \<open>setStart\<close> with an explicit index and
  \<open>processBlock\<close> leave it so. On the syncer that \<open>New\<close> makes, \<open>setStart\<close> with
  index 5 on a network whose genesis has index 0 succeeds, sets \<open>nextIndex\<close> to 5 and
  leaves \<open>pastBlocks\<close> empty; and after a start from the genesis, an omitted block at
  index 0 moves \<open>nextIndex\<close> to 1 with \<open>pastBlocks\<close> still empty.
\<close>

theorem pastBlocks_empty_above_genesis:
  "fst (setStart (Inr networkStatus200 :: string error + NetworkStatusResponse) New 5) = None
   \<and> genesisBlock (snd (setStart (Inr networkStatus200 :: string error + NetworkStatusResponse) New 5))
       = Some (GenesisBlockIdentifier networkStatus200)
   \<and> Index (GenesisBlockIdentifier networkStatus200)
       <s nextIndex (snd (setStart (Inr networkStatus200 :: string error + NetworkStatusResponse) New 5))
   \<and> pastBlocks (snd (setStart (Inr networkStatus200 :: string error + NetworkStatusResponse) New 5)) = []
   \<and> Index (GenesisBlockIdentifier networkStatus200)
       <s nextIndex (after (processBlock (\<lambda>x. x) acceptingHandler
            (snd (setStart (Inr networkStatus200 :: string error + NetworkStatusResponse) New (- 1)))
            (Some \<lparr>index = 0, block = None, orphanHead = False\<rparr>)))
   \<and> pastBlocks (after (processBlock (\<lambda>x. x) acceptingHandler
            (snd (setStart (Inr networkStatus200 :: string error + NetworkStatusResponse) New (- 1)))
            (Some \<lparr>index = 0, block = None, orphanHead = False\<rparr>))) = []"
  by (simp add: setStart_def processBlock_def networkStatus200_def New_def word_sless_alt)

subsection \<open>The window is bounded\<close>

lemma addBlock_length:
  assumes "length (pastBlocks s) \<le> PastBlockSize"
  shows "length (pastBlocks (after (addBlock h s blk))) \<le> PastBlockSize"
  using assms by (auto simp: addBlock_def Let_def split: option.splits)

lemma removeBlock_length:
  assumes "length (pastBlocks s) \<le> PastBlockSize"
  shows "length (pastBlocks (after (removeBlock h s l))) \<le> PastBlockSize"
  using assms by (auto simp: removeBlock_def Let_def split: option.splits)

text \<open>The four ways \<open>processBlock\<close> can leave the state.\<close>

lemma processBlock_after_cases:
  "after (processBlock types_Hash h s br) = s
   \<or> after (processBlock types_Hash h s br) = s\<lparr>nextIndex := nextIndex s + 1\<rparr>
   \<or> (\<exists>l. after (processBlock types_Hash h s br) = after (removeBlock h s l))
   \<or> (\<exists>blk. after (processBlock types_Hash h s br) = after (addBlock h s blk))"
  by (auto simp: processBlock_def split: option.splits exec.splits)

text \<open>
  C6. \<open>length pastBlocks \<le> PastBlockSize\<close> (20) is kept by every call of
  \<open>processBlock\<close>, whatever the result and whatever the Handler answers: the only branch
  that makes the window longer appends one identifier and drops the head when the length
  has passed \<open>PastBlockSize\<close>.
\<close>

theorem pastBlocks_bounded:
  assumes "length (pastBlocks s) \<le> PastBlockSize"
  shows "length (pastBlocks (after (processBlock types_Hash h s br))) \<le> PastBlockSize"
  using processBlock_after_cases [of types_Hash h s br] assms
    addBlock_length [OF assms, of h] removeBlock_length [OF assms, of h]
  by auto

text \<open>
  A window of 20 identifiers, and the block of index 20 arriving: it is accepted, the
  oldest identifier leaves the window, and the window still holds 20.
\<close>

lemma showNat_19: "showNat 19 = ''19''"
  by (simp add: showNat.simps)

lemma processBlock_fullWindow:
  "processBlock (\<lambda>x. x) acceptingHandler fullWindow
        (Some \<lparr>index = 20, block = Some block20, orphanHead = False\<rparr>)
   = \<lparr>result = Done None, calls = [CallBlockAdded (Some block20)],
      after = fullWindow\<lparr>pastBlocks := drop 1 (pastBlocks fullWindow) @ [BlockIdentifier block20],
                          nextIndex := 21\<rparr>\<rparr>"
  by (simp add: step_defs fullWindow_def block20_def acceptingHandler_def PastBlockSize_def
      showNat_19 Let_def)

theorem pastBlocks_bounded_witness:
  "length (pastBlocks fullWindow) \<le> PastBlockSize
   \<and> length (pastBlocks (after (processBlock (\<lambda>x. x) acceptingHandler fullWindow
        (Some \<lparr>index = 20, block = Some block20, orphanHead = False\<rparr>)))) \<le> PastBlockSize
   \<and> pastBlocks (after (processBlock (\<lambda>x. x) acceptingHandler fullWindow
        (Some \<lparr>index = 20, block = Some block20, orphanHead = False\<rparr>)))
       = drop 1 (pastBlocks fullWindow) @ [BlockIdentifier block20]"
proof -
  have a: "length (pastBlocks fullWindow) \<le> PastBlockSize"
    by (simp add: fullWindow_def PastBlockSize_def)
  have c: "pastBlocks (after (processBlock (\<lambda>x. x) acceptingHandler fullWindow
        (Some \<lparr>index = 20, block = Some block20, orphanHead = False\<rparr>)))
       = drop 1 (pastBlocks fullWindow) @ [BlockIdentifier block20]"
    by (simp add: processBlock_fullWindow)
  show ?thesis
    using a c pastBlocks_bounded [OF a, of "\<lambda>x. x" acceptingHandler
        "Some \<lparr>index = 20, block = Some block20, orphanHead = False\<rparr>"]
    by blast
qed

subsection \<open>The range driver\<close>

text \<open>
  C7. \<open>nextSyncableRange\<close> asks for the network status unless \<open>nextIndex\<close> is -1. With
  the tip of a status that \<open>Helper.NetworkStatus\<close> returned, the effective range end is
  the tip's index when \<open>endIndex\<close> is -1 or above the tip's index, and \<open>endIndex\<close>
  otherwise; \<open>nextSyncableRange\<close> reports halt exactly when \<open>nextIndex\<close> is above this
  range end, and returns the range end otherwise. On halt the loop of \<open>Sync\<close> ends with
  success exactly when \<open>endIndex\<close> is not -1 and \<open>nextIndex\<close> is above \<open>endIndex\<close>;
  otherwise it sleeps and repeats. Without halt it syncs up to the range end.
\<close>

theorem nextSyncableRange_halt:
  assumes "nextIndex s \<noteq> - 1"
  shows "let tip = Index (CurrentBlockIdentifier r);
             rangeEnd = (if endIndex = - 1 \<or> tip <s endIndex then tip else endIndex)
         in nextSyncableRange (Inr r :: 'e error + NetworkStatusResponse) s endIndex
              = (if rangeEnd <s nextIndex s then (- 1, True, None) else (rangeEnd, False, None))
          \<and> (SyncLoopTurn (Inr r :: 'e error + NetworkStatusResponse) s endIndex = SyncFinished
               \<longleftrightarrow> rangeEnd <s nextIndex s \<and> endIndex \<noteq> - 1 \<and> endIndex <s nextIndex s)
          \<and> (SyncLoopTurn (Inr r :: 'e error + NetworkStatusResponse) s endIndex = SyncSleep
               \<longleftrightarrow> rangeEnd <s nextIndex s \<and> \<not> (endIndex \<noteq> - 1 \<and> endIndex <s nextIndex s))
          \<and> (SyncLoopTurn (Inr r :: 'e error + NetworkStatusResponse) s endIndex = SyncRange rangeEnd
               \<longleftrightarrow> \<not> rangeEnd <s nextIndex s)"
  using assms by (simp add: nextSyncableRange_def SyncLoopTurn_def Let_def)

text \<open>
  With the tip at 200: from index 0 and end 1200 the range end is 200; at index 201 the
  loop sleeps when the end is 1200 and finishes when the end is 200.
\<close>

theorem nextSyncableRange_halt_witness:
  "nextSyncableRange (Inr networkStatus200 :: string error + NetworkStatusResponse) New 1200
     = (200, False, None)
   \<and> SyncLoopTurn (Inr networkStatus200 :: string error + NetworkStatusResponse) New 1200
     = SyncRange 200
   \<and> nextSyncableRange (Inr networkStatus200 :: string error + NetworkStatusResponse)
       (New\<lparr>nextIndex := 201\<rparr>) 1200 = (- 1, True, None)
   \<and> SyncLoopTurn (Inr networkStatus200 :: string error + NetworkStatusResponse)
       (New\<lparr>nextIndex := 201\<rparr>) 1200 = SyncSleep
   \<and> SyncLoopTurn (Inr networkStatus200 :: string error + NetworkStatusResponse)
       (New\<lparr>nextIndex := 201\<rparr>) 200 = SyncFinished"
proof -
  have a: "nextIndex New \<noteq> - 1" by (simp add: New_def)
  have b: "nextIndex (New\<lparr>nextIndex := 201\<rparr>) \<noteq> - 1" by simp
  have t: "Index (CurrentBlockIdentifier networkStatus200) = 200"
    by (simp add: networkStatus200_def)
  have n: "nextIndex New = 0" by (simp add: New_def)
  show ?thesis
    using nextSyncableRange_halt [where ?'e = string, OF a, of networkStatus200 1200]
          nextSyncableRange_halt [where ?'e = string, OF b, of networkStatus200 1200]
          nextSyncableRange_halt [where ?'e = string, OF b, of networkStatus200 200]
    by (simp add: t n Let_def word_sless_alt)
qed

subsection \<open>An orphan head on an empty window\<close>

text \<open>
  C9. The claim is that a result with a nil block and \<open>orphanHead\<close> set, received while
  \<open>pastBlocks\<close> is empty, is processed without a nil block being dereferenced or handed
  to \<open>Handler.BlockAdded\<close>. The code does not do so: \<open>checkRemove\<close> returns on the empty
  window before it looks at \<open>orphanHead\<close>, \<open>processBlock\<close> takes the result for a block
  to add, calls \<open>BlockAdded\<close> with the nil block and, when the Handler returns no error,
  dereferences it. The early return on the empty window is the one that also lets a
  block of any index through.
\<close>

theorem processBlock_orphan_head_on_empty_window:
  "processBlock (\<lambda>x. x) acceptingHandler New (Some \<lparr>index = 1, block = None, orphanHead = True\<rparr>)
     = \<lparr>result = NilPointerPanic, calls = [CallBlockAdded None], after = New\<rparr>"
  by (simp add: step_defs New_def acceptingHandler_def)

subsection \<open>Errors leave the state alone\<close>

lemma addBlock_error:
  assumes "result (addBlock h s blk) = Done (Some e)"
  shows "after (addBlock h s blk) = s"
  using assms by (auto simp: addBlock_def Let_def split: option.splits)

lemma removeBlock_error:
  assumes "result (removeBlock h s l) = Done (Some e)"
  shows "after (removeBlock h s l) = s"
  using assms by (auto simp: removeBlock_def Let_def split: option.splits)

text \<open>
  C10. Whenever \<open>processBlock\<close> returns an error (\<open>ErrBlockResultNil\<close>, the out-of-order
  error, \<open>ErrCannotRemoveGenesisBlock\<close>, or the error of a Handler callback), the
  syncer state after the call, \<open>nextIndex\<close> and \<open>pastBlocks\<close> included, is the state
  before it.
\<close>

theorem processBlock_error_atomic:
  assumes "result (processBlock types_Hash h s br) = Done (Some e)"
  shows "after (processBlock types_Hash h s br) = s"
  using assms
  by (auto simp: processBlock_def addBlock_error removeBlock_error
      split: option.splits exec.splits if_splits)

text \<open>
  An orphan head at index 2 with a Handler whose \<open>BlockRemoved\<close> fails: the Handler was
  called, its error is returned and the state is untouched.
\<close>

theorem processBlock_error_atomic_witness:
  "result (processBlock (\<lambda>x. x) failingHandler syncedTwo
      (Some \<lparr>index = 2, block = None, orphanHead = True\<rparr>)) = Done (Some (External ''handler failed''))
   \<and> calls (processBlock (\<lambda>x. x) failingHandler syncedTwo
      (Some \<lparr>index = 2, block = None, orphanHead = True\<rparr>))
      = [CallBlockRemoved (Some (BlockIdentifier (blockSequence ! 1)))]
   \<and> after (processBlock (\<lambda>x. x) failingHandler syncedTwo
      (Some \<lparr>index = 2, block = None, orphanHead = True\<rparr>)) = syncedTwo"
proof -
  let ?p = "processBlock (\<lambda>x. x) failingHandler syncedTwo
      (Some \<lparr>index = 2, block = None, orphanHead = True\<rparr>)"
  have a: "result ?p = Done (Some (External ''handler failed''))"
    by (simp add: step_defs syncedTwo_def blockSequence_def failingHandler_def)
  have c: "calls ?p = [CallBlockRemoved (Some (BlockIdentifier (blockSequence ! 1)))]"
    by (simp add: step_defs syncedTwo_def blockSequence_def failingHandler_def)
  show ?thesis
    using a c processBlock_error_atomic [OF a] by simp
qed

end
